theory Spec2Isabelle
  imports Main
begin

section \<open>Values exchanged with the handlers\<close>

text \<open>
  Request bodies, response bodies and token payloads are JSON values. Numbers are
  restricted to integers (the only numbers the handlers produce are the \<open>iat\<close> and
  \<open>exp\<close> timestamps). A JavaScript \<open>undefined\<close> (a property that is not there) is
  \<open>None\<close> of \<open>json option\<close>.
\<close>

datatype json =
    JNull
  | JBool bool
  | JNum int
  | JStr string
  | JArr "json list"
  | JObj "(string \<times> json) list"

type_synonym json_object = "(string \<times> json) list"

text \<open>JavaScript truthiness: \<open>!v\<close> is \<open>\<not> truthy v\<close>.\<close>

fun truthy :: "json option \<Rightarrow> bool" where
  "truthy None = False"
| "truthy (Some JNull) = False"
| "truthy (Some (JBool b)) = b"
| "truthy (Some (JNum n)) = (n \<noteq> 0)"
| "truthy (Some (JStr s)) = (s \<noteq> [])"
| "truthy (Some (JArr xs)) = True"
| "truthy (Some (JObj fs)) = True"

text \<open>
  Reading the property \<open>k\<close> (here only \<open>email\<close> and \<open>password\<close>) of a parsed body.
  Reading a property of \<open>null\<close> throws a TypeError (\<open>Inl\<close>); a primitive or an array has
  no such property, and an object (the list of its properties, as parsed) has it when
  the key is there.
\<close>

datatype js_error = TypeError

fun getProp :: "json \<Rightarrow> string \<Rightarrow> js_error + json option" where
  "getProp JNull k = Inl TypeError"
| "getProp (JObj fs) k = Inr (map_of fs k)"
| "getProp v k = Inr None"

text \<open>A cookie as \<open>response.cookies.set\<close> receives it; instants are milliseconds since the epoch.\<close>

record Cookie =
  cookie_name :: string
  cookie_value :: string
  httpOnly :: bool
  path :: string
  maxAge :: "nat option"
  expires :: "nat option"
  sameSite :: string

text \<open>
  The part of a \<open>NextRequest\<close> the handlers read: the parsed JSON body (\<open>None\<close> when
  \<open>request.json()\<close> throws because the body is not JSON) and the cookies.
\<close>

record NextRequest =
  json_body :: "json option"
  cookies :: "string \<rightharpoonup> string"

text \<open>A \<open>NextResponse\<close>: status, JSON body, and the cookie set on it, if any.\<close>

record NextResponse =
  status :: nat
  body :: json
  set_cookie :: "Cookie option"

definition NextResponse_json :: "json \<Rightarrow> nat \<Rightarrow> NextResponse" where
  "NextResponse_json b st = \<lparr>status = st, body = b, set_cookie = None\<rparr>"

section \<open>The token library\<close>

text \<open>
  The handlers call \<open>jwt.sign\<close> and \<open>jwt.verify\<close> of the \<open>jsonwebtoken\<close> package. The
  package is a dependency, not part of the repository; it is modelled by the steps its
  documentation gives, over three primitives that stay parameters: the base64url-JSON
  encoding of a segment, its decoding, and the HMAC of a signing input under an
  algorithm and a secret. A payload is any JSON value: \<open>jwt.verify\<close> returns whatever
  the payload segment of a correctly signed token decodes to. Time is \<open>Date.now()\<close>, in
  milliseconds.
\<close>

record JwtPrimitives =
  encodeSeg :: "json \<Rightarrow> string"
  decodeSeg :: "string \<Rightarrow> json option"
  hmac :: "string \<Rightarrow> string \<Rightarrow> string \<Rightarrow> string"

text \<open>
  What \<open>jwt.verify\<close> throws: the package's three errors, and the TypeError of reading
  \<open>nbf\<close> or \<open>exp\<close> of a payload that is \<open>null\<close>.
\<close>

datatype jwt_error =
    JsonWebTokenError string
  | TokenExpiredError
  | NotBeforeError
  | PayloadTypeError

text \<open>\<open>token.split('.')\<close>.\<close>

fun split_on :: "char \<Rightarrow> string \<Rightarrow> string list" where
  "split_on c [] = [[]]"
| "split_on c (x # xs) =
     (if x = c then [] # split_on c xs
      else (case split_on c xs of
              w # ws \<Rightarrow> (x # w) # ws
            | [] \<Rightarrow> [[x]]))"

definition jwt_header :: json_object where
  "jwt_header = [(''alg'', JStr ''HS256''), (''typ'', JStr ''JWT'')]"

definition hs_algorithms :: "string list" where
  "hs_algorithms = [''HS256'', ''HS384'', ''HS512'']"

text \<open>
  \<open>jwt.sign(payload, secret, {expiresIn})\<close> for an object payload, with \<open>expiresIn\<close> in
  seconds: the payload gets \<open>iat = floor(now / 1000)\<close> and \<open>exp = iat + expiresIn\<close>, and
  the token is \<open>header.payload.signature\<close>.
\<close>

definition jwt_sign :: "JwtPrimitives \<Rightarrow> json_object \<Rightarrow> string \<Rightarrow> nat \<Rightarrow> nat \<Rightarrow> string" where
  "jwt_sign P payload secret expiresIn now =
     (let timestamp = now div 1000;
          claims = payload @ [(''iat'', JNum (int timestamp)),
                              (''exp'', JNum (int (timestamp + expiresIn)))];
          signing_input = encodeSeg P (JObj jwt_header) @ ''.'' @ encodeSeg P (JObj claims)
      in signing_input @ ''.'' @ hmac P ''HS256'' secret signing_input)"

text \<open>
  The \<open>exp\<close> and \<open>nbf\<close> checks of \<open>jwt.verify\<close>, against the clock in seconds. The
  claims are read as properties of the payload, whatever it is: a payload that is not
  an object has neither (and passes), and \<open>null\<close> throws.
\<close>

definition check_exp :: "json \<Rightarrow> int \<Rightarrow> jwt_error + json" where
  "check_exp payload clockTimestamp =
     (case getProp payload ''exp'' of
        Inl _ \<Rightarrow> Inl PayloadTypeError
      | Inr (Some (JNum ex)) \<Rightarrow>
          if clockTimestamp \<ge> ex then Inl TokenExpiredError else Inr payload
      | Inr (Some _) \<Rightarrow> Inl (JsonWebTokenError ''invalid exp value'')
      | Inr None \<Rightarrow> Inr payload)"

definition check_claims :: "json \<Rightarrow> int \<Rightarrow> jwt_error + json" where
  "check_claims payload clockTimestamp =
     (case getProp payload ''nbf'' of
        Inl _ \<Rightarrow> Inl PayloadTypeError
      | Inr (Some (JNum nbf)) \<Rightarrow>
          if nbf > clockTimestamp then Inl NotBeforeError
          else check_exp payload clockTimestamp
      | Inr (Some _) \<Rightarrow> Inl (JsonWebTokenError ''invalid nbf value'')
      | Inr None \<Rightarrow> check_exp payload clockTimestamp)"

text \<open>
  \<open>jwt.verify(token, secret)\<close>: the token is not empty, has three segments, both JSON
  segments decode, a signature is there, the header names an HMAC algorithm, the
  signature is the HMAC of the first two segments, and the time claims hold. Every
  failure is an exception (\<open>Inl\<close>); otherwise the decoded payload is returned as it is.
\<close>

definition jwt_verify :: "JwtPrimitives \<Rightarrow> string \<Rightarrow> string \<Rightarrow> nat \<Rightarrow> jwt_error + json" where
  "jwt_verify P token secret now =
     (if token = [] then Inl (JsonWebTokenError ''jwt must be provided'')
      else
       (case split_on CHR ''.'' token of
          [h, p, s] \<Rightarrow>
            (case decodeSeg P h of
               None \<Rightarrow> Inl (JsonWebTokenError ''invalid token'')
             | Some header \<Rightarrow>
                 (case decodeSeg P p of
                    None \<Rightarrow> Inl (JsonWebTokenError ''invalid token'')
                  | Some payload \<Rightarrow>
                      if s = [] then Inl (JsonWebTokenError ''jwt signature is required'')
                      else (case getProp header ''alg'' of
                              Inr (Some (JStr alg)) \<Rightarrow>
                                if alg \<notin> set hs_algorithms
                                then Inl (JsonWebTokenError ''invalid algorithm'')
                                else if hmac P alg secret (h @ ''.'' @ p) \<noteq> s
                                then Inl (JsonWebTokenError ''invalid signature'')
                                else check_claims payload (int (now div 1000))
                            | Inl _ \<Rightarrow> Inl (JsonWebTokenError ''invalid token'')
                            | _ \<Rightarrow> Inl (JsonWebTokenError ''invalid algorithm''))))
        | _ \<Rightarrow> Inl (JsonWebTokenError ''jwt malformed'')))"

text \<open>\<open>process.env.JWT_SECRET || 'your-secret-key'\<close>.\<close>

definition jwt_secret :: "string option \<Rightarrow> string" where
  "jwt_secret env_JWT_SECRET =
     (case env_JWT_SECRET of
        Some s \<Rightarrow> if s = [] then ''your-secret-key'' else s
      | None \<Rightarrow> ''your-secret-key'')"

section \<open>Identities (lib/auth.ts) and the credential directory\<close>

record User =
  uid :: string
  email :: string
  name :: string
  role :: string

record MockUser = User +
  password :: string

definition mockUsers :: "MockUser list" where
  "mockUsers =
     [\<lparr>uid = ''1'', email = ''admin@example.com'', name = ''Admin User'', role = ''admin'',
       password = ''admin123''\<rparr>]"

text \<open>
  The object literal \<open>{id: user.id, email: user.email, name: user.name, role: user.role}\<close>
  that the login handler signs and also returns.
\<close>

definition identity_fields :: "'a User_scheme \<Rightarrow> json_object" where
  "identity_fields u =
     [(''id'', JStr (uid u)), (''email'', JStr (email u)),
      (''name'', JStr (name u)), (''role'', JStr (role u))]"

text \<open>
  Reading an object as a \<open>User\<close> (the cast \<open>as User\<close> does nothing at run time): the
  four fields, when they are there and are strings.
\<close>

definition asUser :: "json_object \<Rightarrow> User option" where
  "asUser obj =
     (case (map_of obj ''id'', map_of obj ''email'', map_of obj ''name'', map_of obj ''role'') of
        (Some (JStr i), Some (JStr e), Some (JStr n), Some (JStr r)) \<Rightarrow>
          Some \<lparr>uid = i, email = e, name = n, role = r\<rparr>
      | _ \<Rightarrow> None)"

section \<open>Login handler (app/api/auth/login/route.ts)\<close>

text \<open>
  The two error messages contain one non-ASCII letter each (n with tilde, a with acute),
  written here as its two UTF-8 bytes.
\<close>

definition msg_required :: string where
  "msg_required = ''Email y contrase'' @ [CHR 0xC3, CHR 0xB1] @ ''a son requeridos''"

definition msg_invalid :: string where
  "msg_invalid = ''Credenciales inv'' @ [CHR 0xC3, CHR 0xA1] @ ''lidas''"

definition internal_error :: NextResponse where
  "internal_error = NextResponse_json (JObj [(''error'', JStr ''Error interno del servidor'')]) 500"

text \<open>
  \<open>POST\<close>. An exception anywhere in the body of the \<open>try\<close> (the request body is not
  JSON, or it is \<open>null\<close> and cannot be destructured) ends in the \<open>catch\<close>, which answers
  500.
\<close>

definition login_POST :: "JwtPrimitives \<Rightarrow> string option \<Rightarrow> nat \<Rightarrow> NextRequest \<Rightarrow> NextResponse" where
  "login_POST P env_JWT_SECRET now request =
     (case json_body request of
        None \<Rightarrow> internal_error
      | Some b \<Rightarrow>
          (case (getProp b ''email'', getProp b ''password'') of
             (Inr em, Inr pw) \<Rightarrow>
               if \<not> truthy em \<or> \<not> truthy pw
               then NextResponse_json (JObj [(''error'', JStr msg_required)]) 400
               else (case find (\<lambda>u. Some (JStr (email u)) = em \<and> Some (JStr (password u)) = pw) mockUsers of
                       None \<Rightarrow> NextResponse_json (JObj [(''error'', JStr msg_invalid)]) 401
                     | Some user \<Rightarrow>
                         (let token = jwt_sign P (identity_fields user) (jwt_secret env_JWT_SECRET) 86400 now
                          in (NextResponse_json (JObj [(''user'', JObj (identity_fields user))]) 200)
                               \<lparr>set_cookie := Some \<lparr>cookie_name = ''auth-token'', cookie_value = token,
                                   httpOnly = True, path = ''/'', maxAge = Some (60 * 60 * 24),
                                   expires = None, sameSite = ''strict''\<rparr>\<rparr>))
           | _ \<Rightarrow> internal_error))"

section \<open>Logout handler (app/api/auth/logout/route.ts)\<close>

text \<open>\<open>POST\<close> reads nothing of the request. \<open>new Date(0)\<close> is instant 0.\<close>

definition logout_POST :: "NextRequest \<Rightarrow> NextResponse" where
  "logout_POST request =
     (NextResponse_json (JObj [(''success'', JBool True)]) 200)
       \<lparr>set_cookie := Some \<lparr>cookie_name = ''auth-token'', cookie_value = [],
           httpOnly = True, path = ''/'', maxAge = None, expires = Some 0,
           sameSite = ''strict''\<rparr>\<rparr>"

section \<open>Reading the identity from a request (lib/auth.ts) and the identity lookup\<close>

text \<open>
  \<open>getUserFromRequest\<close>: \<open>null\<close> is \<open>None\<close>. The \<open>catch\<close> turns every exception of
  \<open>jwt.verify\<close> into \<open>null\<close> (after logging it). The cast \<open>as User\<close> does nothing at run
  time: what \<open>jwt.verify\<close> returned is returned, object or not.
\<close>

definition getUserFromRequest :: "JwtPrimitives \<Rightarrow> string option \<Rightarrow> nat \<Rightarrow> NextRequest \<Rightarrow> json option" where
  "getUserFromRequest P env_JWT_SECRET now request =
     (case cookies request ''auth-token'' of
        None \<Rightarrow> None
      | Some token \<Rightarrow>
          if token = [] then None
          else (case jwt_verify P token (jwt_secret env_JWT_SECRET) now of
                  Inl error \<Rightarrow> None
                | Inr decoded \<Rightarrow> Some decoded))"

text \<open>
  \<open>GET\<close> of app/api/auth/me/route.ts. The test \<open>!user\<close> is a truthiness test: \<open>null\<close>
  fails it, and so does a decoded payload that is \<open>false\<close>, \<open>0\<close> or the empty string.
  \<open>getUserFromRequest\<close> raises nothing, so the handler's own \<open>catch\<close> (500) is never
  entered.
\<close>

definition me_GET :: "JwtPrimitives \<Rightarrow> string option \<Rightarrow> nat \<Rightarrow> NextRequest \<Rightarrow> NextResponse" where
  "me_GET P env_JWT_SECRET now request =
     (case getUserFromRequest P env_JWT_SECRET now request of
        None \<Rightarrow>
          NextResponse_json
            (JObj [(''success'', JBool False), (''message'', JStr ''Not authenticated'')]) 401
      | Some user \<Rightarrow>
          if \<not> truthy (Some user)
          then NextResponse_json
                 (JObj [(''success'', JBool False), (''message'', JStr ''Not authenticated'')]) 401
          else NextResponse_json (JObj [(''success'', JBool True), (''user'', user)]) 200)"

section \<open>Client session context (contexts/auth-contexts.tsx)\<close>

text \<open>
  The provider's state, with the browser's local storage beside it. A stored text is
  represented by the JSON value it is the text of. What an operation does to the outside
  is returned as a list of effects; \<open>Fetch method url\<close> is a request to a route handler.
\<close>

datatype effect =
    RouterPush string
  | Fetch string string
  | ConsoleError string

record AuthState =
  user :: "json option"
  isLoading :: bool
  isAuthenticated :: bool
  localStorage :: "string \<rightharpoonup> json"

text \<open>\<open>login\<close>: \<open>Inl\<close> is the error it rethrows; \<open>finally\<close> resets the loading flag.\<close>

definition login :: "string \<Rightarrow> string \<Rightarrow> AuthState \<Rightarrow> (string + unit) \<times> AuthState \<times> effect list" where
  "login em pw s =
     (if em = ''admin@example.com'' \<and> pw = ''password123''
      then (let userData = JObj [(''email'', JStr em), (''name'', JStr ''Admin User''),
                                 (''role'', JStr ''admin'')]
            in (Inr (),
                s\<lparr>user := Some userData, isAuthenticated := True,
                  localStorage := (localStorage s)(''user'' \<mapsto> userData),
                  isLoading := False\<rparr>,
                []))
      else (Inl ''Invalid credentials'', s\<lparr>isLoading := False\<rparr>,
            [ConsoleError ''Login error:'']))"

definition logout :: "AuthState \<Rightarrow> AuthState \<times> effect list" where
  "logout s =
     (s\<lparr>user := None, isAuthenticated := False,
        localStorage := (localStorage s)(''user'' := None)\<rparr>,
      [RouterPush ''/login''])"

section \<open>Test vectors for the token primitives\<close>

text \<open>
  Two real tokens under the default secret, for evaluating the handlers on concrete
  input: the administrator's identity signed at \<open>Date.now() = 1700000000000\<close>, and a
  token whose payload is the JSON value \<open>false\<close>. The three primitives are given by
  their values on the segments of the two.
\<close>

definition tv_header_seg :: string where
  "tv_header_seg = ''eyJhbGciOiJIUzI1NiIsInR5cCI6IkpXVCJ9''"

definition tv_claims :: json_object where
  "tv_claims =
     [(''id'', JStr ''1''), (''email'', JStr ''admin@example.com''),
      (''name'', JStr ''Admin User''), (''role'', JStr ''admin''),
      (''iat'', JNum 1700000000), (''exp'', JNum 1700086400)]"

definition tv_claims_seg :: string where
  "tv_claims_seg =
     ''eyJpZCI6IjEiLCJlbWFpbCI6ImFkbWluQGV4YW1wbGUuY29tIiwibmFtZSI6IkFkbWluIFVzZXIiLCJyb2xlIjoiYWRtaW4iLCJpYXQiOjE3MDAwMDAwMDAsImV4cCI6MTcwMDA4NjQwMH0''"

definition tv_signature :: string where
  "tv_signature = ''QDFeYs_JdPFLN0CNgijqMpL4zIL8HfSAIRd1nI8b7B4''"

definition tv_token :: string where
  "tv_token = tv_header_seg @ ''.'' @ tv_claims_seg @ ''.'' @ tv_signature"

definition tv_false_seg :: string where
  "tv_false_seg = ''ZmFsc2U''"

definition tv_false_signature :: string where
  "tv_false_signature = ''wDzr9N67fnagFg1QPzy_QZuaZO4KUICYptkE1aH3K0U''"

definition tv_false_token :: string where
  "tv_false_token = tv_header_seg @ ''.'' @ tv_false_seg @ ''.'' @ tv_false_signature"

definition tv_primitives :: JwtPrimitives where
  "tv_primitives =
     \<lparr>encodeSeg = (\<lambda>v. if v = JObj jwt_header then tv_header_seg
                      else if v = JObj tv_claims then tv_claims_seg
                      else if v = JBool False then tv_false_seg else ''e30''),
      decodeSeg = (\<lambda>seg. if seg = tv_header_seg then Some (JObj jwt_header)
                        else if seg = tv_claims_seg then Some (JObj tv_claims)
                        else if seg = tv_false_seg then Some (JBool False) else None),
      hmac = (\<lambda>alg secret input.
                if alg = ''HS256'' \<and> secret = ''your-secret-key''
                   \<and> input = tv_header_seg @ ''.'' @ tv_claims_seg
                then tv_signature
                else if alg = ''HS256'' \<and> secret = ''your-secret-key''
                   \<and> input = tv_header_seg @ ''.'' @ tv_false_seg
                then tv_false_signature else ''AAAA'')\<rparr>"

section \<open>Notions the properties are stated with\<close>

text \<open>
  What the token primitives must satisfy at one set of claims for a token issued over
  them to be readable again: both JSON segments decode to what was encoded, no segment
  contains the separator (the base64url alphabet has no dot), and the signature is not
  empty.
\<close>

definition primitives_fit :: "JwtPrimitives \<Rightarrow> string \<Rightarrow> json_object \<Rightarrow> bool" where
  "primitives_fit P secret claims =
     (let h = encodeSeg P (JObj jwt_header);
          p = encodeSeg P (JObj claims);
          s = hmac P ''HS256'' secret (h @ ''.'' @ p)
      in decodeSeg P h = Some (JObj jwt_header) \<and> decodeSeg P p = Some (JObj claims) \<and>
         CHR ''.'' \<notin> set h \<and> CHR ''.'' \<notin> set p \<and> CHR ''.'' \<notin> set s \<and> s \<noteq> [])"

text \<open>The claims of the token that the login handler issues for \<open>u\<close> at \<open>now\<close>.\<close>

definition issued_claims :: "'a User_scheme \<Rightarrow> nat \<Rightarrow> json_object" where
  "issued_claims u now =
     identity_fields u @ [(''iat'', JNum (int (now div 1000))),
                          (''exp'', JNum (int (now div 1000 + 86400)))]"

text \<open>
  The value of a field of the request body, when the body is an object that has it;
  the two kinds of failing login request; and the request that carries a pair of strings.
\<close>

definition request_field :: "NextRequest \<Rightarrow> string \<Rightarrow> json option" where
  "request_field r k = (case json_body r of Some (JObj fs) \<Rightarrow> map_of fs k | _ \<Rightarrow> None)"

definition email_unknown :: "NextRequest \<Rightarrow> bool" where
  "email_unknown r = (\<forall>u \<in> set mockUsers. request_field r ''email'' \<noteq> Some (JStr (email u)))"

definition known_email_wrong_password :: "NextRequest \<Rightarrow> bool" where
  "known_email_wrong_password r =
     ((\<exists>u \<in> set mockUsers. request_field r ''email'' = Some (JStr (email u))) \<and>
      \<not> (\<exists>u \<in> set mockUsers. request_field r ''email'' = Some (JStr (email u)) \<and>
                                request_field r ''password'' = Some (JStr (password u))))"

definition credentials :: "string \<Rightarrow> string \<Rightarrow> NextRequest" where
  "credentials em pw =
     \<lparr>json_body = Some (JObj [(''email'', JStr em), (''password'', JStr pw)]), cookies = Map.empty\<rparr>"

text \<open>The request, presenting \<open>token\<close> in the session cookie.\<close>

definition with_token :: "NextRequest \<Rightarrow> string \<Rightarrow> NextRequest" where
  "with_token request token = request\<lparr>cookies := (cookies request)(''auth-token'' \<mapsto> token)\<rparr>"

section \<open>The login handler, case by case\<close>

lemma getProp_request_field:
  "json_body r = Some b \<Longrightarrow> b \<noteq> JNull \<Longrightarrow> getProp b k = Inr (request_field r k)"
  by (cases b) (simp_all add: request_field_def)

lemma login_POST_validated:
  assumes "json_body r = Some b" "b \<noteq> JNull"
  shows "login_POST P env now r =
     (if \<not> truthy (request_field r ''email'') \<or> \<not> truthy (request_field r ''password'')
      then NextResponse_json (JObj [(''error'', JStr msg_required)]) 400
      else if request_field r ''email'' = Some (JStr ''admin@example.com'') \<and>
              request_field r ''password'' = Some (JStr ''admin123'')
      then (NextResponse_json (JObj [(''user'', JObj (identity_fields (hd mockUsers)))]) 200)
             \<lparr>set_cookie := Some \<lparr>cookie_name = ''auth-token'',
                 cookie_value = jwt_sign P (identity_fields (hd mockUsers)) (jwt_secret env) 86400 now,
                 httpOnly = True, path = ''/'', maxAge = Some 86400,
                 expires = None, sameSite = ''strict''\<rparr>\<rparr>
      else NextResponse_json (JObj [(''error'', JStr msg_invalid)]) 401)"
  using assms
  by (auto simp add: login_POST_def getProp_request_field mockUsers_def Let_def)

lemma login_POST_unreadable:
  "json_body r = None \<or> json_body r = Some JNull \<Longrightarrow> login_POST P env now r = internal_error"
  by (auto simp add: login_POST_def)

text \<open>
  The directory's password is \<open>admin123\<close>: with it the handler answers 200, returns the
  identity and sets the cookie. The client context's own \<open>login\<close> accepts
  \<open>password123\<close> and rejects \<open>admin123\<close>.
\<close>

lemma login_POST_accepts_admin123:
  "login_POST P env now (credentials ''admin@example.com'' ''admin123'') =
     \<lparr>status = 200,
      body = JObj [(''user'', JObj [(''id'', JStr ''1''), (''email'', JStr ''admin@example.com''),
                                     (''name'', JStr ''Admin User''), (''role'', JStr ''admin'')])],
      set_cookie = Some \<lparr>cookie_name = ''auth-token'',
         cookie_value = jwt_sign P (identity_fields (hd mockUsers)) (jwt_secret env) 86400 now,
         httpOnly = True, path = ''/'', maxAge = Some 86400, expires = None,
         sameSite = ''strict''\<rparr>\<rparr>"
  by (simp add: login_POST_def credentials_def mockUsers_def NextResponse_json_def
      identity_fields_def Let_def)

lemma context_login_password:
  "fst (login ''admin@example.com'' ''password123'' s) = Inr () \<and>
   user (fst (snd (login ''admin@example.com'' ''password123'' s))) =
     Some (JObj [(''email'', JStr ''admin@example.com''), (''name'', JStr ''Admin User''),
                 (''role'', JStr ''admin'')]) \<and>
   fst (login ''admin@example.com'' ''admin123'' s) = Inl ''Invalid credentials''"
  by (simp add: login_def Let_def)

text \<open>
  C1. Submitting \<open>admin@example.com\<close> with \<open>password123\<close> to the login handler is meant
  to succeed with status 200, the administrator's identity and a session cookie. The
  handler answers 401 with the invalid-credentials message and sets no cookie.
\<close>

theorem login_POST_rejects_password123:
  "login_POST P env now
     \<lparr>json_body = Some (JObj [(''email'', JStr ''admin@example.com''),
                               (''password'', JStr ''password123'')]), cookies = cs\<rparr>
   = \<lparr>status = 401, body = JObj [(''error'', JStr msg_invalid)], set_cookie = None\<rparr>"
  by (simp add: login_POST_def mockUsers_def NextResponse_json_def)

theorem login_POST_rejects_password123_witness:
  "login_POST tv_primitives None 1700000000000
     \<lparr>json_body = Some (JObj [(''email'', JStr ''admin@example.com''),
                               (''password'', JStr ''password123'')]), cookies = Map.empty\<rparr>
   = \<lparr>status = 401, body = JObj [(''error'', JStr msg_invalid)], set_cookie = None\<rparr>"
  using login_POST_rejects_password123[of tv_primitives None 1700000000000 Map.empty]
  by simp

text \<open>
  C4, as stated: an unknown email and a known email with a wrong password get the same
  status and message. It fails when one of the two requests has an empty field: the
  presence check answers 400 before the directory is consulted.
\<close>

theorem login_failure_status_counterexample:
  "email_unknown (credentials ''nobody@example.com'' ''x'') \<and>
   known_email_wrong_password (credentials ''admin@example.com'' '''') \<and>
   status (login_POST tv_primitives None 0 (credentials ''nobody@example.com'' ''x'')) = 401 \<and>
   status (login_POST tv_primitives None 0 (credentials ''admin@example.com'' '''')) = 400"
  by (simp add: email_unknown_def known_email_wrong_password_def credentials_def request_field_def
      mockUsers_def login_POST_def NextResponse_json_def)

text \<open>
  C4, amended: for every pair of login requests that both carry an email and a password
  that pass the presence check, one with an email that is not in the directory and one
  with a directory email and a wrong password, the handler answers both with status 401,
  the same message and no cookie, whatever the secret and the time of either run.
\<close>

theorem login_failures_indistinguishable:
  assumes "truthy (request_field r1 ''email'')" "truthy (request_field r1 ''password'')"
      and "truthy (request_field r2 ''email'')" "truthy (request_field r2 ''password'')"
      and "email_unknown r1" "known_email_wrong_password r2"
  shows "login_POST P1 env1 t1 r1 =
           \<lparr>status = 401, body = JObj [(''error'', JStr msg_invalid)], set_cookie = None\<rparr> \<and>
         login_POST P2 env2 t2 r2 =
           \<lparr>status = 401, body = JObj [(''error'', JStr msg_invalid)], set_cookie = None\<rparr>"
proof -
  from assms(1) obtain b1 where b1: "json_body r1 = Some b1" "b1 \<noteq> JNull"
    by (auto simp add: request_field_def split: option.splits json.splits)
  from assms(3) obtain b2 where b2: "json_body r2 = Some b2" "b2 \<noteq> JNull"
    by (auto simp add: request_field_def split: option.splits json.splits)
  have "login_POST P1 env1 t1 r1 = NextResponse_json (JObj [(''error'', JStr msg_invalid)]) 401"
    using assms(1,2,5) by (simp add: login_POST_validated[OF b1] email_unknown_def mockUsers_def)
  moreover have "login_POST P2 env2 t2 r2 = NextResponse_json (JObj [(''error'', JStr msg_invalid)]) 401"
    using assms(3,4,6)
    by (auto simp add: login_POST_validated[OF b2] known_email_wrong_password_def mockUsers_def)
  ultimately show ?thesis by (simp add: NextResponse_json_def)
qed

theorem login_failures_indistinguishable_witness:
  "truthy (request_field (credentials ''nobody@example.com'' ''admin123'') ''email'') \<and>
   truthy (request_field (credentials ''nobody@example.com'' ''admin123'') ''password'') \<and>
   truthy (request_field (credentials ''admin@example.com'' ''password123'') ''email'') \<and>
   truthy (request_field (credentials ''admin@example.com'' ''password123'') ''password'') \<and>
   email_unknown (credentials ''nobody@example.com'' ''admin123'') \<and>
   known_email_wrong_password (credentials ''admin@example.com'' ''password123'') \<and>
   login_POST tv_primitives None 0 (credentials ''nobody@example.com'' ''admin123'') =
     login_POST tv_primitives None 0 (credentials ''admin@example.com'' ''password123'')"
proof -
  have h: "truthy (request_field (credentials ''nobody@example.com'' ''admin123'') ''email'')"
      "truthy (request_field (credentials ''nobody@example.com'' ''admin123'') ''password'')"
      "truthy (request_field (credentials ''admin@example.com'' ''password123'') ''email'')"
      "truthy (request_field (credentials ''admin@example.com'' ''password123'') ''password'')"
      "email_unknown (credentials ''nobody@example.com'' ''admin123'')"
      "known_email_wrong_password (credentials ''admin@example.com'' ''password123'')"
    by (simp_all add: credentials_def request_field_def email_unknown_def
        known_email_wrong_password_def mockUsers_def)
  show ?thesis
    using h login_failures_indistinguishable[OF h, of tv_primitives None 0 tv_primitives None 0]
    by simp
qed

text \<open>
  C5, as stated: every login request with the email or the password missing gets 400.
  It fails for the body \<open>null\<close>: it has neither field, reading them throws, and the
  handler's \<open>catch\<close> answers 500.
\<close>

theorem login_missing_field_counterexample:
  "request_field \<lparr>json_body = Some JNull, cookies = Map.empty\<rparr> ''email'' = None \<and>
   request_field \<lparr>json_body = Some JNull, cookies = Map.empty\<rparr> ''password'' = None \<and>
   status (login_POST tv_primitives None 0 \<lparr>json_body = Some JNull, cookies = Map.empty\<rparr>) = 500"
  by (simp add: request_field_def login_POST_def internal_error_def NextResponse_json_def)

text \<open>
  C5, amended: for every login request whose body is a JSON value other than \<open>null\<close>
  and in which the email or the password is missing or empty, the handler answers 400
  with the required-fields message; and every login response other than the 200 one
  sets no cookie.
\<close>

theorem login_validation_and_no_cookie_on_failure:
  "(\<forall>b. json_body r = Some b \<and> b \<noteq> JNull \<and>
        (\<not> truthy (request_field r ''email'') \<or> \<not> truthy (request_field r ''password''))
        \<longrightarrow> login_POST P env now r =
              \<lparr>status = 400, body = JObj [(''error'', JStr msg_required)], set_cookie = None\<rparr>) \<and>
   (status (login_POST P env now r) \<noteq> 200 \<longrightarrow> set_cookie (login_POST P env now r) = None)"
proof (intro conjI allI impI)
  fix b
  assume "json_body r = Some b \<and> b \<noteq> JNull \<and>
        (\<not> truthy (request_field r ''email'') \<or> \<not> truthy (request_field r ''password''))"
  then show "login_POST P env now r =
              \<lparr>status = 400, body = JObj [(''error'', JStr msg_required)], set_cookie = None\<rparr>"
    by (auto simp add: login_POST_validated NextResponse_json_def)
next
  assume st: "status (login_POST P env now r) \<noteq> 200"
  show "set_cookie (login_POST P env now r) = None"
  proof (cases "json_body r = None \<or> json_body r = Some JNull")
    case True
    then show ?thesis
      by (simp add: login_POST_unreadable internal_error_def NextResponse_json_def)
  next
    case False
    then obtain b where "json_body r = Some b" "b \<noteq> JNull" by auto
    from login_POST_validated[OF this] st show ?thesis
      by (auto simp add: NextResponse_json_def split: if_splits)
  qed
qed

theorem login_validation_and_no_cookie_on_failure_witness:
  "json_body \<lparr>json_body = Some (JObj [(''email'', JStr ''admin@example.com'')]), cookies = Map.empty\<rparr>
     = Some (JObj [(''email'', JStr ''admin@example.com'')]) \<and>
   JObj [(''email'', JStr ''admin@example.com'')] \<noteq> JNull \<and>
   \<not> truthy (request_field
        \<lparr>json_body = Some (JObj [(''email'', JStr ''admin@example.com'')]), cookies = Map.empty\<rparr>
        ''password'') \<and>
   login_POST tv_primitives None 0
     \<lparr>json_body = Some (JObj [(''email'', JStr ''admin@example.com'')]), cookies = Map.empty\<rparr>
     = \<lparr>status = 400, body = JObj [(''error'', JStr msg_required)], set_cookie = None\<rparr> \<and>
   status (login_POST tv_primitives None 0 (credentials ''admin@example.com'' ''wrong'')) \<noteq> 200 \<and>
   set_cookie (login_POST tv_primitives None 0 (credentials ''admin@example.com'' ''wrong'')) = None"
proof -
  let ?r = "\<lparr>json_body = Some (JObj [(''email'', JStr ''admin@example.com'')]), cookies = Map.empty\<rparr>"
  have nopw: "\<not> truthy (request_field ?r ''password'')"
    by (simp add: request_field_def)
  have st: "status (login_POST tv_primitives None 0 (credentials ''admin@example.com'' ''wrong'')) \<noteq> 200"
    by (simp add: login_POST_def credentials_def mockUsers_def NextResponse_json_def)
  from login_validation_and_no_cookie_on_failure[of ?r tv_primitives None 0] nopw
  have "login_POST tv_primitives None 0 ?r =
      \<lparr>status = 400, body = JObj [(''error'', JStr msg_required)], set_cookie = None\<rparr>"
    by simp
  moreover from
    login_validation_and_no_cookie_on_failure
      [of "credentials ''admin@example.com'' ''wrong''" tv_primitives None 0] st
  have "set_cookie (login_POST tv_primitives None 0 (credentials ''admin@example.com'' ''wrong'')) = None"
    by simp
  ultimately show ?thesis using nopw st by simp
qed

section \<open>Issuing and verifying tokens\<close>

lemma split_on_no_sep: "c \<notin> set a \<Longrightarrow> split_on c a = [a]"
  by (induction a) auto

lemma split_on_append: "c \<notin> set a \<Longrightarrow> split_on c (a @ c # rest) = a # split_on c rest"
  by (induction a) auto

lemma split_on_three:
  "c \<notin> set a \<Longrightarrow> c \<notin> set b \<Longrightarrow> c \<notin> set d \<Longrightarrow>
   split_on c (a @ c # b @ c # d) = [a, b, d]"
  by (simp add: split_on_append split_on_no_sep)

lemma jwt_sign_identity:
  "jwt_sign P (identity_fields u) secret 86400 t0 =
     encodeSeg P (JObj jwt_header) @ CHR ''.'' # encodeSeg P (JObj (issued_claims u t0)) @ CHR ''.'' #
     hmac P ''HS256'' secret
       (encodeSeg P (JObj jwt_header) @ ''.'' @ encodeSeg P (JObj (issued_claims u t0)))"
  by (simp add: jwt_sign_def issued_claims_def Let_def)

lemma check_claims_issued:
  "check_claims (JObj (issued_claims u t0)) c =
     (if c \<ge> int (t0 div 1000 + 86400) then Inl TokenExpiredError
      else Inr (JObj (issued_claims u t0)))"
  by (simp add: check_claims_def check_exp_def issued_claims_def identity_fields_def)

text \<open>
  Verifying an issued token: from the second \<open>iat + 86400\<close> on it is expired, before
  that the claims come back.
\<close>

lemma jwt_verify_issued:
  assumes fit: "primitives_fit P secret (issued_claims u t0)"
  shows "jwt_verify P (jwt_sign P (identity_fields u) secret 86400 t0) secret now =
           (if now div 1000 \<ge> t0 div 1000 + 86400 then Inl TokenExpiredError
            else Inr (JObj (issued_claims u t0)))"
proof -
  let ?h = "encodeSeg P (JObj jwt_header)"
  let ?p = "encodeSeg P (JObj (issued_claims u t0))"
  let ?s = "hmac P ''HS256'' secret (?h @ ''.'' @ ?p)"
  from fit have dec: "decodeSeg P ?h = Some (JObj jwt_header)"
      "decodeSeg P ?p = Some (JObj (issued_claims u t0))"
    and dots: "CHR ''.'' \<notin> set ?h" "CHR ''.'' \<notin> set ?p" "CHR ''.'' \<notin> set ?s"
    and sig: "?s \<noteq> []"
    by (simp_all add: primitives_fit_def Let_def)
  have ne: "jwt_sign P (identity_fields u) secret 86400 t0 \<noteq> []"
    by (simp add: jwt_sign_identity)
  have split: "split_on CHR ''.'' (jwt_sign P (identity_fields u) secret 86400 t0) = [?h, ?p, ?s]"
    unfolding jwt_sign_identity using dots by (rule split_on_three)
  have alg: "getProp (JObj jwt_header) ''alg'' = Inr (Some (JStr ''HS256''))"
    by (simp add: jwt_header_def)
  show ?thesis
    unfolding jwt_verify_def split
    using ne dec sig alg by (simp add: hs_algorithms_def check_claims_issued)
qed

lemma jwt_verify_empty:
  "jwt_verify P [] secret now = Inl (JsonWebTokenError ''jwt must be provided'')"
  by (simp add: jwt_verify_def)

text \<open>The empty cookie value needs no case of its own: it does not verify either.\<close>

lemma getUserFromRequest_cases:
  "getUserFromRequest P env now request =
     (case cookies request ''auth-token'' of
        None \<Rightarrow> None
      | Some token \<Rightarrow>
          (case jwt_verify P token (jwt_secret env) now of Inl e \<Rightarrow> None | Inr d \<Rightarrow> Some d))"
  by (simp add: getUserFromRequest_def jwt_verify_empty split: option.splits)

text \<open>The lookup of an issued token, at any time.\<close>

lemma getUserFromRequest_issued:
  assumes "primitives_fit P (jwt_secret env) (issued_claims u t0)"
  shows "getUserFromRequest P env now
           (with_token request (jwt_sign P (identity_fields u) (jwt_secret env) 86400 t0)) =
         (if now div 1000 \<ge> t0 div 1000 + 86400 then None
          else Some (JObj (issued_claims u t0)))"
  using assms by (simp add: getUserFromRequest_cases with_token_def jwt_verify_issued)

lemma me_GET_issued:
  assumes "primitives_fit P (jwt_secret env) (issued_claims u t0)"
  shows "me_GET P env now
           (with_token request (jwt_sign P (identity_fields u) (jwt_secret env) 86400 t0)) =
         (if now div 1000 \<ge> t0 div 1000 + 86400
          then \<lparr>status = 401,
                body = JObj [(''success'', JBool False), (''message'', JStr ''Not authenticated'')],
                set_cookie = None\<rparr>
          else \<lparr>status = 200,
                body = JObj [(''success'', JBool True), (''user'', JObj (issued_claims u t0))],
                set_cookie = None\<rparr>)"
  by (simp add: me_GET_def getUserFromRequest_issued[OF assms] NextResponse_json_def)

lemma asUser_issued: "asUser (issued_claims (I :: User) t0) = Some I"
  by (simp add: asUser_def issued_claims_def identity_fields_def)

subsection \<open>The test vectors\<close>

lemma tv_issued:
  "issued_claims \<lparr>uid = ''1'', email = ''admin@example.com'', name = ''Admin User'', role = ''admin''\<rparr>
     1700000000000 = tv_claims"
  by (simp add: issued_claims_def identity_fields_def tv_claims_def)

lemma tv_fit: "primitives_fit tv_primitives ''your-secret-key'' tv_claims"
  by (simp add: primitives_fit_def tv_primitives_def Let_def jwt_header_def tv_claims_def
      tv_header_seg_def tv_claims_seg_def tv_signature_def)

lemma tv_sign:
  "jwt_sign tv_primitives
     (identity_fields \<lparr>uid = ''1'', email = ''admin@example.com'', name = ''Admin User'', role = ''admin''\<rparr>)
     ''your-secret-key'' 86400 1700000000000 = tv_token"
  by (simp add: jwt_sign_def tv_primitives_def identity_fields_def tv_token_def
      tv_claims_def jwt_header_def Let_def)

lemma tv_split: "split_on CHR ''.'' tv_token = [tv_header_seg, tv_claims_seg, tv_signature]"
proof -
  have "CHR ''.'' \<notin> set tv_header_seg" "CHR ''.'' \<notin> set tv_claims_seg"
      "CHR ''.'' \<notin> set tv_signature"
    by (simp_all add: tv_header_seg_def tv_claims_seg_def tv_signature_def)
  then show ?thesis
    unfolding tv_token_def by (simp add: split_on_three)
qed

lemma tv_verify:
  "jwt_verify tv_primitives tv_token (jwt_secret None) 1700000001000 = Inr (JObj tv_claims)"
  using jwt_verify_issued[of tv_primitives "''your-secret-key''"
      "\<lparr>uid = ''1'', email = ''admin@example.com'', name = ''Admin User'', role = ''admin''\<rparr>"
      1700000000000 1700000001000]
  by (simp add: tv_issued tv_fit tv_sign jwt_secret_def)

text \<open>The token with the payload \<open>false\<close> verifies: it is correctly signed and claims no expiry.\<close>

lemma tv_false_verify:
  "jwt_verify tv_primitives tv_false_token (jwt_secret None) now = Inr (JBool False)"
proof -
  have dots: "CHR ''.'' \<notin> set tv_header_seg" "CHR ''.'' \<notin> set tv_false_seg"
      "CHR ''.'' \<notin> set tv_false_signature"
    by (simp_all add: tv_header_seg_def tv_false_seg_def tv_false_signature_def)
  then have split: "split_on CHR ''.'' tv_false_token =
      [tv_header_seg, tv_false_seg, tv_false_signature]"
    unfolding tv_false_token_def by (simp add: split_on_three)
  have ne: "tv_false_token \<noteq> []"
    by (simp add: tv_false_token_def)
  show ?thesis
    unfolding jwt_verify_def split
    using ne
    by (simp add: tv_primitives_def tv_header_seg_def tv_claims_seg_def tv_false_seg_def
        tv_false_signature_def jwt_header_def hs_algorithms_def jwt_secret_def
        check_claims_def check_exp_def)
qed

text \<open>
  C2. For every identity \<open>I\<close>, looking up the token issued for \<open>I\<close> at \<open>t0\<close>, at any time
  before its expiry second \<open>iat + 86400\<close>, returns the issued claims, and these read as
  the identity \<open>I\<close>.
\<close>

theorem token_roundtrip:
  fixes I :: User
  assumes "primitives_fit P (jwt_secret env) (issued_claims I t0)"
      and "now div 1000 < t0 div 1000 + 86400"
  shows "getUserFromRequest P env now
           (with_token request (jwt_sign P (identity_fields I) (jwt_secret env) 86400 t0))
         = Some (JObj (issued_claims I t0)) \<and>
         asUser (issued_claims I t0) = Some I"
  using assms by (simp add: getUserFromRequest_cases with_token_def jwt_verify_issued asUser_issued)

theorem token_roundtrip_witness:
  "primitives_fit tv_primitives (jwt_secret None)
     (issued_claims \<lparr>uid = ''1'', email = ''admin@example.com'', name = ''Admin User'', role = ''admin''\<rparr>
        1700000000000) \<and>
   (1700086399999 :: nat) div 1000 < 1700000000000 div 1000 + 86400 \<and>
   getUserFromRequest tv_primitives None 1700086399999
     (with_token \<lparr>json_body = None, cookies = Map.empty\<rparr> tv_token) = Some (JObj tv_claims) \<and>
   asUser tv_claims =
     Some \<lparr>uid = ''1'', email = ''admin@example.com'', name = ''Admin User'', role = ''admin''\<rparr>"
proof -
  let ?I = "\<lparr>uid = ''1'', email = ''admin@example.com'', name = ''Admin User'', role = ''admin''\<rparr>"
  have fit: "primitives_fit tv_primitives (jwt_secret None) (issued_claims ?I 1700000000000)"
    by (simp add: tv_issued tv_fit jwt_secret_def)
  have t: "(1700086399999 :: nat) div 1000 < 1700000000000 div 1000 + 86400"
    by simp
  from token_roundtrip[OF fit t, of "\<lparr>json_body = None, cookies = Map.empty\<rparr>"]
  show ?thesis
    using fit t by (simp add: tv_issued tv_sign jwt_secret_def)
qed

text \<open>
  C3. Whatever token the session cookie carries, a failed verification is the absent
  identity, never an exception: every error of \<open>jwt.verify\<close> becomes \<open>null\<close>. In
  particular a string that is not three segments, a token whose signature is not the
  HMAC of its first two segments under the secret, and a token whose \<open>exp\<close> second has
  been reached all give \<open>null\<close>.
\<close>

theorem verify_failures_collapse_to_absent:
  "(\<forall>e. jwt_verify P token (jwt_secret env) now = Inl e \<longrightarrow>
        getUserFromRequest P env now (with_token request token) = None) \<and>
   (length (split_on CHR ''.'' token) \<noteq> 3 \<longrightarrow>
        getUserFromRequest P env now (with_token request token) = None) \<and>
   (\<forall>h p s. split_on CHR ''.'' token = [h, p, s] \<and>
        (\<forall>alg \<in> set hs_algorithms. hmac P alg (jwt_secret env) (h @ ''.'' @ p) \<noteq> s) \<longrightarrow>
        getUserFromRequest P env now (with_token request token) = None) \<and>
   (\<forall>h p s payload ex. split_on CHR ''.'' token = [h, p, s] \<and> decodeSeg P p = Some (JObj payload) \<and>
        map_of payload ''exp'' = Some (JNum ex) \<and> ex \<le> int (now div 1000) \<longrightarrow>
        getUserFromRequest P env now (with_token request token) = None)"
proof (intro conjI allI impI)
  fix e
  assume "jwt_verify P token (jwt_secret env) now = Inl e"
  then show "getUserFromRequest P env now (with_token request token) = None"
    by (simp add: getUserFromRequest_cases with_token_def)
next
  assume "length (split_on CHR ''.'' token) \<noteq> 3"
  then have "\<exists>e. jwt_verify P token (jwt_secret env) now = Inl e"
    by (auto simp add: jwt_verify_def split: list.splits)
  then show "getUserFromRequest P env now (with_token request token) = None"
    by (auto simp add: getUserFromRequest_cases with_token_def)
next
  fix h p s
  assume a: "split_on CHR ''.'' token = [h, p, s] \<and>
        (\<forall>alg \<in> set hs_algorithms. hmac P alg (jwt_secret env) (h @ ''.'' @ p) \<noteq> s)"
  then have "\<exists>e. jwt_verify P token (jwt_secret env) now = Inl e"
    by (auto simp add: jwt_verify_def split: option.splits json.splits sum.splits)
  then show "getUserFromRequest P env now (with_token request token) = None"
    by (auto simp add: getUserFromRequest_cases with_token_def)
next
  fix h p s payload ex
  assume a: "split_on CHR ''.'' token = [h, p, s] \<and> decodeSeg P p = Some (JObj payload) \<and>
        map_of payload ''exp'' = Some (JNum ex) \<and> ex \<le> int (now div 1000)"
  then have "\<exists>e. check_claims (JObj payload) (int (now div 1000)) = Inl e"
    by (auto simp add: check_claims_def check_exp_def split: option.splits json.splits)
  with a have "\<exists>e. jwt_verify P token (jwt_secret env) now = Inl e"
    by (auto simp add: jwt_verify_def split: option.splits json.splits sum.splits)
  then show "getUserFromRequest P env now (with_token request token) = None"
    by (auto simp add: getUserFromRequest_cases with_token_def)
qed

theorem verify_failures_collapse_to_absent_witness:
  "jwt_verify tv_primitives ''not-a-token'' (jwt_secret None) 1700000001000
     = Inl (JsonWebTokenError ''jwt malformed'') \<and>
   length (split_on CHR ''.'' ''not-a-token'') \<noteq> 3 \<and>
   getUserFromRequest tv_primitives None 1700000001000
     (with_token \<lparr>json_body = None, cookies = Map.empty\<rparr> ''not-a-token'') = None \<and>
   split_on CHR ''.'' (tv_header_seg @ ''.'' @ tv_claims_seg @ ''.'' @ ''forged'')
     = [tv_header_seg, tv_claims_seg, ''forged''] \<and>
   hmac tv_primitives ''HS256'' (jwt_secret None) (tv_header_seg @ ''.'' @ tv_claims_seg) \<noteq> ''forged'' \<and>
   hmac tv_primitives ''HS384'' (jwt_secret None) (tv_header_seg @ ''.'' @ tv_claims_seg) \<noteq> ''forged'' \<and>
   hmac tv_primitives ''HS512'' (jwt_secret None) (tv_header_seg @ ''.'' @ tv_claims_seg) \<noteq> ''forged'' \<and>
   getUserFromRequest tv_primitives None 1700000001000
     (with_token \<lparr>json_body = None, cookies = Map.empty\<rparr>
        (tv_header_seg @ ''.'' @ tv_claims_seg @ ''.'' @ ''forged'')) = None \<and>
   split_on CHR ''.'' tv_token = [tv_header_seg, tv_claims_seg, tv_signature] \<and>
   decodeSeg tv_primitives tv_claims_seg = Some (JObj tv_claims) \<and>
   map_of tv_claims ''exp'' = Some (JNum 1700086400) \<and>
   (1700086400 :: int) \<le> int (1700086400000 div 1000) \<and>
   getUserFromRequest tv_primitives None 1700086400000
     (with_token \<lparr>json_body = None, cookies = Map.empty\<rparr> tv_token) = None"
proof -
  let ?rq = "\<lparr>json_body = None, cookies = Map.empty\<rparr>"
  let ?forged = "tv_header_seg @ ''.'' @ tv_claims_seg @ ''.'' @ ''forged''"
  have m1: "jwt_verify tv_primitives ''not-a-token'' (jwt_secret None) 1700000001000
     = Inl (JsonWebTokenError ''jwt malformed'')"
    by (simp add: jwt_verify_def)
  have m2: "length (split_on CHR ''.'' ''not-a-token'') \<noteq> 3"
    by simp
  have f1: "split_on CHR ''.'' ?forged = [tv_header_seg, tv_claims_seg, ''forged'']"
  proof -
    have "CHR ''.'' \<notin> set tv_header_seg" "CHR ''.'' \<notin> set tv_claims_seg"
        "CHR ''.'' \<notin> set ''forged''"
      by (simp_all add: tv_header_seg_def tv_claims_seg_def)
    then show ?thesis by (simp add: split_on_three)
  qed
  have f2: "\<forall>alg \<in> set hs_algorithms.
      hmac tv_primitives alg (jwt_secret None) (tv_header_seg @ ''.'' @ tv_claims_seg) \<noteq> ''forged''"
    by (simp add: hs_algorithms_def tv_primitives_def tv_signature_def tv_false_signature_def)
  have e1: "decodeSeg tv_primitives tv_claims_seg = Some (JObj tv_claims)"
    by (simp add: tv_primitives_def tv_header_seg_def tv_claims_seg_def)
  have e2: "map_of tv_claims ''exp'' = Some (JNum 1700086400)"
    by (simp add: tv_claims_def)
  have e3: "(1700086400 :: int) \<le> int (1700086400000 div 1000)"
    by simp
  note inst = verify_failures_collapse_to_absent[of tv_primitives _ None _ ?rq]
  from inst[of "''not-a-token''" 1700000001000] m2
  have r1: "getUserFromRequest tv_primitives None 1700000001000 (with_token ?rq ''not-a-token'') = None"
    by blast
  from inst[of ?forged 1700000001000] f1 f2
  have r2: "getUserFromRequest tv_primitives None 1700000001000 (with_token ?rq ?forged) = None"
    by blast
  from inst[of tv_token 1700086400000] tv_split e1 e2 e3
  have r3: "getUserFromRequest tv_primitives None 1700086400000 (with_token ?rq tv_token) = None"
    by blast
  have f3: "hmac tv_primitives ''HS256'' (jwt_secret None) (tv_header_seg @ ''.'' @ tv_claims_seg) \<noteq> ''forged''"
      "hmac tv_primitives ''HS384'' (jwt_secret None) (tv_header_seg @ ''.'' @ tv_claims_seg) \<noteq> ''forged''"
      "hmac tv_primitives ''HS512'' (jwt_secret None) (tv_header_seg @ ''.'' @ tv_claims_seg) \<noteq> ''forged''"
    using f2 by (simp_all add: hs_algorithms_def)
  from m1 m2 f1 f3 e1 e2 e3 r1 r2 r3 tv_split show ?thesis
    by blast
qed

text \<open>
  C6. Whatever the request, the logout handler answers 200 with \<open>{success: true}\<close>, and
  its response sets the session cookie (same name and path as at login) to the empty
  value with the expiry instant 0, which lies before every later clock reading.
\<close>

theorem logout_POST_always_clears:
  "status (logout_POST request) = 200 \<and>
   body (logout_POST request) = JObj [(''success'', JBool True)] \<and>
   (\<exists>c. set_cookie (logout_POST request) = Some c \<and>
        cookie_name c = ''auth-token'' \<and> path c = ''/'' \<and> cookie_value c = [] \<and>
        maxAge c = None \<and>
        (\<forall>now > 0. \<exists>e. expires c = Some e \<and> e < now))"
  by (simp add: logout_POST_def NextResponse_json_def)

theorem logout_POST_always_clears_witness:
  "(0 :: nat) < 1700000000000 \<and>
   status (logout_POST \<lparr>json_body = None, cookies = Map.empty\<rparr>) = 200 \<and>
   (\<exists>c e. set_cookie (logout_POST \<lparr>json_body = None, cookies = Map.empty\<rparr>) = Some c \<and>
          cookie_value c = [] \<and> expires c = Some e \<and> e < 1700000000000)"
  using logout_POST_always_clears[of "\<lparr>json_body = None, cookies = Map.empty\<rparr>"]
  by fastforce

text \<open>
  C7, as stated: after a logout, a lookup that still presents the issued token is
  unauthenticated. It fails: the logout handler only tells the browser to drop the
  cookie, and the token, presented again one second after it was issued, verifies.
\<close>

theorem token_survives_logout_counterexample:
  "set_cookie (login_POST tv_primitives None 1700000000000
                 (credentials ''admin@example.com'' ''admin123'')) =
     Some \<lparr>cookie_name = ''auth-token'', cookie_value = tv_token, httpOnly = True, path = ''/'',
            maxAge = Some 86400, expires = None, sameSite = ''strict''\<rparr> \<and>
   status (logout_POST (with_token \<lparr>json_body = None, cookies = Map.empty\<rparr> tv_token)) = 200 \<and>
   me_GET tv_primitives None 1700000001000
     (with_token \<lparr>json_body = None, cookies = Map.empty\<rparr> tv_token) =
     \<lparr>status = 200, body = JObj [(''success'', JBool True), (''user'', JObj tv_claims)],
      set_cookie = None\<rparr>"
proof -
  have "me_GET tv_primitives None 1700000001000
     (with_token \<lparr>json_body = None, cookies = Map.empty\<rparr> tv_token) =
     \<lparr>status = 200, body = JObj [(''success'', JBool True), (''user'', JObj tv_claims)],
      set_cookie = None\<rparr>"
    using tv_verify
    by (simp add: me_GET_def getUserFromRequest_cases with_token_def NextResponse_json_def)
  moreover have "identity_fields (hd mockUsers) =
      identity_fields \<lparr>uid = ''1'', email = ''admin@example.com'', name = ''Admin User'', role = ''admin''\<rparr>"
    by (simp add: identity_fields_def mockUsers_def)
  ultimately show ?thesis
    by (simp add: login_POST_accepts_admin123 tv_sign jwt_secret_def logout_POST_def
        NextResponse_json_def)
qed

text \<open>
  C7, amended: after a logout, an identity lookup whose request carries the session
  cookie as the logout response set it (empty value), or no session cookie, returns the
  unauthenticated result; a lookup that still presents the previously issued token
  returns the identity with status 200 at every time before the token's expiry, and the
  unauthenticated result only from its expiry on. The handlers keep no state, so a
  logout in between changes nothing of this: the lookup depends on the clock and on the
  request alone.
\<close>

theorem lookup_after_logout:
  fixes I :: User
  shows
  "(case set_cookie (logout_POST r) of
      None \<Rightarrow> False
    | Some c \<Rightarrow>
        me_GET P env now (request\<lparr>cookies := (cookies request)(cookie_name c \<mapsto> cookie_value c)\<rparr>) =
          \<lparr>status = 401,
           body = JObj [(''success'', JBool False), (''message'', JStr ''Not authenticated'')],
           set_cookie = None\<rparr>) \<and>
   me_GET P env now (request\<lparr>cookies := (cookies request)(''auth-token'' := None)\<rparr>) =
     \<lparr>status = 401,
      body = JObj [(''success'', JBool False), (''message'', JStr ''Not authenticated'')],
      set_cookie = None\<rparr> \<and>
   (primitives_fit P (jwt_secret env) (issued_claims I t0) \<longrightarrow>
      me_GET P env now
        (with_token request (jwt_sign P (identity_fields I) (jwt_secret env) 86400 t0)) =
      (if now div 1000 < t0 div 1000 + 86400
       then \<lparr>status = 200,
             body = JObj [(''success'', JBool True), (''user'', JObj (issued_claims I t0))],
             set_cookie = None\<rparr>
       else \<lparr>status = 401,
             body = JObj [(''success'', JBool False), (''message'', JStr ''Not authenticated'')],
             set_cookie = None\<rparr>))"
proof (intro conjI impI)
  show "case set_cookie (logout_POST r) of
      None \<Rightarrow> False
    | Some c \<Rightarrow>
        me_GET P env now (request\<lparr>cookies := (cookies request)(cookie_name c \<mapsto> cookie_value c)\<rparr>) =
          \<lparr>status = 401,
           body = JObj [(''success'', JBool False), (''message'', JStr ''Not authenticated'')],
           set_cookie = None\<rparr>"
    by (simp add: logout_POST_def me_GET_def getUserFromRequest_def NextResponse_json_def)
next
  show "me_GET P env now (request\<lparr>cookies := (cookies request)(''auth-token'' := None)\<rparr>) =
     \<lparr>status = 401,
      body = JObj [(''success'', JBool False), (''message'', JStr ''Not authenticated'')],
      set_cookie = None\<rparr>"
    by (simp add: me_GET_def getUserFromRequest_def NextResponse_json_def)
next
  assume fit: "primitives_fit P (jwt_secret env) (issued_claims I t0)"
  show "me_GET P env now
        (with_token request (jwt_sign P (identity_fields I) (jwt_secret env) 86400 t0)) =
      (if now div 1000 < t0 div 1000 + 86400
       then \<lparr>status = 200,
             body = JObj [(''success'', JBool True), (''user'', JObj (issued_claims I t0))],
             set_cookie = None\<rparr>
       else \<lparr>status = 401,
             body = JObj [(''success'', JBool False), (''message'', JStr ''Not authenticated'')],
             set_cookie = None\<rparr>)"
    by (simp add: me_GET_issued[OF fit] not_less)
qed

theorem lookup_after_logout_witness:
  "primitives_fit tv_primitives (jwt_secret None)
     (issued_claims \<lparr>uid = ''1'', email = ''admin@example.com'', name = ''Admin User'', role = ''admin''\<rparr>
        1700000000000) \<and>
   me_GET tv_primitives None 1700000001000
     (with_token \<lparr>json_body = None, cookies = Map.empty\<rparr> tv_token) =
     \<lparr>status = 200, body = JObj [(''success'', JBool True), (''user'', JObj tv_claims)],
      set_cookie = None\<rparr> \<and>
   me_GET tv_primitives None 1700086400000
     (with_token \<lparr>json_body = None, cookies = Map.empty\<rparr> tv_token) =
     \<lparr>status = 401,
      body = JObj [(''success'', JBool False), (''message'', JStr ''Not authenticated'')],
      set_cookie = None\<rparr>"
proof -
  let ?I = "\<lparr>uid = ''1'', email = ''admin@example.com'', name = ''Admin User'', role = ''admin''\<rparr>"
  let ?rq = "\<lparr>json_body = None, cookies = Map.empty\<rparr>"
  have fit: "primitives_fit tv_primitives (jwt_secret None) (issued_claims ?I 1700000000000)"
    by (simp add: tv_issued tv_fit jwt_secret_def)
  from lookup_after_logout[where r = ?rq and P = tv_primitives and env = None and now = 1700000001000
      and request = ?rq and I = ?I and ?t0.0 = 1700000000000] fit
  have a: "me_GET tv_primitives None 1700000001000 (with_token ?rq tv_token) =
     \<lparr>status = 200, body = JObj [(''success'', JBool True), (''user'', JObj tv_claims)],
      set_cookie = None\<rparr>"
    by (simp add: tv_issued tv_sign jwt_secret_def)
  from lookup_after_logout[where r = ?rq and P = tv_primitives and env = None and now = 1700086400000
      and request = ?rq and I = ?I and ?t0.0 = 1700000000000] fit
  have b: "me_GET tv_primitives None 1700086400000 (with_token ?rq tv_token) =
     \<lparr>status = 401,
      body = JObj [(''success'', JBool False), (''message'', JStr ''Not authenticated'')],
      set_cookie = None\<rparr>"
    by (simp add: tv_issued tv_sign jwt_secret_def)
  from fit a b show ?thesis by simp
qed

text \<open>
  C8, as stated: whenever the token verifies, the lookup answers 200 with the decoded
  identity. It fails for a correctly signed token whose payload is \<open>false\<close>: it
  verifies, and the handler's test \<open>!user\<close> answers 401.
\<close>

theorem me_GET_verified_falsy_counterexample:
  "jwt_verify tv_primitives tv_false_token (jwt_secret None) 1700000001000 = Inr (JBool False) \<and>
   me_GET tv_primitives None 1700000001000
     (with_token \<lparr>json_body = None, cookies = Map.empty\<rparr> tv_false_token) =
     \<lparr>status = 401,
      body = JObj [(''success'', JBool False), (''message'', JStr ''Not authenticated'')],
      set_cookie = None\<rparr>"
  by (simp add: tv_false_verify me_GET_def getUserFromRequest_cases with_token_def
      NextResponse_json_def)

text \<open>
  C8, amended: for every request the identity lookup answers 401 when the session
  cookie is absent or its token fails verification; when the token verifies it answers
  200 with the decoded payload as \<open>user\<close> if that payload is a value JavaScript treats
  as true (every object, so every identity, is; so is a non-empty string or a non-zero
  number), and 401 if the payload is \<open>false\<close>, \<open>0\<close> or the empty string; it answers
  nothing else, and in every case it sets no cookie.
\<close>

theorem me_GET_outcomes:
  "(cookies request ''auth-token'' = None \<longrightarrow>
      me_GET P env now request =
        \<lparr>status = 401,
         body = JObj [(''success'', JBool False), (''message'', JStr ''Not authenticated'')],
         set_cookie = None\<rparr>) \<and>
   (\<forall>token e. cookies request ''auth-token'' = Some token \<and>
      jwt_verify P token (jwt_secret env) now = Inl e \<longrightarrow>
      me_GET P env now request =
        \<lparr>status = 401,
         body = JObj [(''success'', JBool False), (''message'', JStr ''Not authenticated'')],
         set_cookie = None\<rparr>) \<and>
   (\<forall>token decoded. cookies request ''auth-token'' = Some token \<and>
      jwt_verify P token (jwt_secret env) now = Inr decoded \<and> truthy (Some decoded) \<longrightarrow>
      me_GET P env now request =
        \<lparr>status = 200, body = JObj [(''success'', JBool True), (''user'', decoded)],
         set_cookie = None\<rparr>) \<and>
   (\<forall>token fields. cookies request ''auth-token'' = Some token \<and>
      jwt_verify P token (jwt_secret env) now = Inr (JObj fields) \<longrightarrow>
      me_GET P env now request =
        \<lparr>status = 200, body = JObj [(''success'', JBool True), (''user'', JObj fields)],
         set_cookie = None\<rparr>) \<and>
   (\<forall>token decoded. cookies request ''auth-token'' = Some token \<and>
      jwt_verify P token (jwt_secret env) now = Inr decoded \<and> \<not> truthy (Some decoded) \<longrightarrow>
      me_GET P env now request =
        \<lparr>status = 401,
         body = JObj [(''success'', JBool False), (''message'', JStr ''Not authenticated'')],
         set_cookie = None\<rparr>) \<and>
   set_cookie (me_GET P env now request) = None \<and>
   (status (me_GET P env now request) = 401 \<or> status (me_GET P env now request) = 200)"
  by (auto simp add: me_GET_def getUserFromRequest_cases NextResponse_json_def
      split: option.splits sum.splits)

theorem me_GET_outcomes_witness:
  "cookies \<lparr>json_body = None, cookies = Map.empty\<rparr> ''auth-token'' = None \<and>
   status (me_GET tv_primitives None 1700000001000 \<lparr>json_body = None, cookies = Map.empty\<rparr>) = 401 \<and>
   cookies (with_token \<lparr>json_body = None, cookies = Map.empty\<rparr> ''not-a-token'') ''auth-token''
     = Some ''not-a-token'' \<and>
   jwt_verify tv_primitives ''not-a-token'' (jwt_secret None) 1700000001000
     = Inl (JsonWebTokenError ''jwt malformed'') \<and>
   status (me_GET tv_primitives None 1700000001000
            (with_token \<lparr>json_body = None, cookies = Map.empty\<rparr> ''not-a-token'')) = 401 \<and>
   cookies (with_token \<lparr>json_body = None, cookies = Map.empty\<rparr> tv_token) ''auth-token''
     = Some tv_token \<and>
   jwt_verify tv_primitives tv_token (jwt_secret None) 1700000001000 = Inr (JObj tv_claims) \<and>
   truthy (Some (JObj tv_claims)) \<and>
   me_GET tv_primitives None 1700000001000
     (with_token \<lparr>json_body = None, cookies = Map.empty\<rparr> tv_token) =
     \<lparr>status = 200, body = JObj [(''success'', JBool True), (''user'', JObj tv_claims)],
      set_cookie = None\<rparr> \<and>
   cookies (with_token \<lparr>json_body = None, cookies = Map.empty\<rparr> tv_false_token) ''auth-token''
     = Some tv_false_token \<and>
   jwt_verify tv_primitives tv_false_token (jwt_secret None) 1700000001000 = Inr (JBool False) \<and>
   \<not> truthy (Some (JBool False)) \<and>
   status (me_GET tv_primitives None 1700000001000
            (with_token \<lparr>json_body = None, cookies = Map.empty\<rparr> tv_false_token)) = 401"
proof -
  let ?rq = "\<lparr>json_body = None, cookies = Map.empty\<rparr>"
  have c0: "cookies ?rq ''auth-token'' = None" by simp
  have c1: "cookies (with_token ?rq ''not-a-token'') ''auth-token'' = Some ''not-a-token''"
    by (simp add: with_token_def)
  have v1: "jwt_verify tv_primitives ''not-a-token'' (jwt_secret None) 1700000001000
     = Inl (JsonWebTokenError ''jwt malformed'')"
    by (simp add: jwt_verify_def)
  have c2: "cookies (with_token ?rq tv_token) ''auth-token'' = Some tv_token"
    by (simp add: with_token_def)
  have v2: "jwt_verify tv_primitives tv_token (jwt_secret None) 1700000001000 = Inr (JObj tv_claims)"
    by (rule tv_verify)
  have c3: "cookies (with_token ?rq tv_false_token) ''auth-token'' = Some tv_false_token"
    by (simp add: with_token_def)
  have v3: "jwt_verify tv_primitives tv_false_token (jwt_secret None) 1700000001000
     = Inr (JBool False)"
    by (rule tv_false_verify)
  have t2: "truthy (Some (JObj tv_claims))" and t3: "\<not> truthy (Some (JBool False))"
    by simp_all
  note inst = me_GET_outcomes[of _ tv_primitives None 1700000001000]
  from inst[of ?rq] c0
  have r0: "status (me_GET tv_primitives None 1700000001000 ?rq) = 401" by simp
  from inst[of "with_token ?rq ''not-a-token''"] c1 v1
  have r1: "status (me_GET tv_primitives None 1700000001000 (with_token ?rq ''not-a-token'')) = 401"
    by simp
  from inst[of "with_token ?rq tv_token"] c2 v2 t2
  have r2: "me_GET tv_primitives None 1700000001000 (with_token ?rq tv_token) =
     \<lparr>status = 200, body = JObj [(''success'', JBool True), (''user'', JObj tv_claims)],
      set_cookie = None\<rparr>"
    by blast
  from inst[of "with_token ?rq tv_false_token"] c3 v3 t3
  have r3: "status (me_GET tv_primitives None 1700000001000 (with_token ?rq tv_false_token)) = 401"
    by simp
  from c0 c1 v1 c2 v2 t2 c3 v3 t3 r0 r1 r2 r3 show ?thesis by blast
qed

text \<open>
  C9, as stated: the context's \<open>logout\<close> invokes the logout handler. It does not: its
  only effect on the outside is the navigation to the login page.
\<close>

theorem context_logout_no_request_counterexample:
  "snd (logout \<lparr>user = Some (JObj [(''email'', JStr ''admin@example.com'')]), isLoading = False,
                isAuthenticated = True,
                localStorage = [''user'' \<mapsto> JObj [(''email'', JStr ''admin@example.com'')]]\<rparr>)
     = [RouterPush ''/login''] \<and>
   Fetch ''POST'' ''/api/auth/logout'' \<notin>
     set (snd (logout \<lparr>user = Some (JObj [(''email'', JStr ''admin@example.com'')]), isLoading = False,
                isAuthenticated = True,
                localStorage = [''user'' \<mapsto> JObj [(''email'', JStr ''admin@example.com'')]]\<rparr>))"
  by (simp add: logout_def)

text \<open>
  C9, amended: the context's \<open>logout\<close>, whenever invoked, clears the stored identity and
  the authenticated flag, removes the persisted identity from local storage (leaving the
  other entries and the loading flag as they were), and signals the redirect to the
  login page; it makes no request to any handler.
\<close>

theorem context_logout_clears_and_redirects:
  "user (fst (logout s)) = None \<and>
   \<not> isAuthenticated (fst (logout s)) \<and>
   localStorage (fst (logout s)) = (localStorage s)(''user'' := None) \<and>
   isLoading (fst (logout s)) = isLoading s \<and>
   snd (logout s) = [RouterPush ''/login''] \<and>
   (\<forall>m u. Fetch m u \<notin> set (snd (logout s)))"
  by (simp add: logout_def)

text \<open>
  C10. For every token the login handler issues, a successful identity lookup returns
  as \<open>user\<close> the whole decoded payload: the four identity fields and, after them, the
  numbers \<open>iat\<close> (the second of signing) and \<open>exp\<close> (\<open>iat + 86400\<close>).
\<close>

theorem me_GET_returns_full_payload:
  fixes I :: User
  assumes "primitives_fit P (jwt_secret env) (issued_claims I t0)"
      and "now div 1000 < t0 div 1000 + 86400"
  shows "me_GET P env now
           (with_token request (jwt_sign P (identity_fields I) (jwt_secret env) 86400 t0)) =
         \<lparr>status = 200,
          body = JObj [(''success'', JBool True),
                       (''user'', JObj [(''id'', JStr (uid I)), (''email'', JStr (email I)),
                                        (''name'', JStr (name I)), (''role'', JStr (role I)),
                                        (''iat'', JNum (int (t0 div 1000))),
                                        (''exp'', JNum (int (t0 div 1000) + 86400))])],
          set_cookie = None\<rparr>"
proof -
  have "me_GET P env now
          (with_token request (jwt_sign P (identity_fields I) (jwt_secret env) 86400 t0)) =
        \<lparr>status = 200,
         body = JObj [(''success'', JBool True), (''user'', JObj (issued_claims I t0))],
         set_cookie = None\<rparr>"
    using assms(2) by (simp add: me_GET_issued[OF assms(1)])
  then show ?thesis
    by (simp add: issued_claims_def identity_fields_def)
qed

theorem me_GET_returns_full_payload_witness:
  "primitives_fit tv_primitives (jwt_secret None)
     (issued_claims \<lparr>uid = ''1'', email = ''admin@example.com'', name = ''Admin User'', role = ''admin''\<rparr>
        1700000000000) \<and>
   (1700000001000 :: nat) div 1000 < 1700000000000 div 1000 + 86400 \<and>
   me_GET tv_primitives None 1700000001000
     (with_token \<lparr>json_body = None, cookies = Map.empty\<rparr> tv_token) =
     \<lparr>status = 200,
      body = JObj [(''success'', JBool True),
                   (''user'', JObj [(''id'', JStr ''1''), (''email'', JStr ''admin@example.com''),
                                    (''name'', JStr ''Admin User''), (''role'', JStr ''admin''),
                                    (''iat'', JNum 1700000000), (''exp'', JNum 1700086400)])],
      set_cookie = None\<rparr>"
proof -
  let ?I = "\<lparr>uid = ''1'', email = ''admin@example.com'', name = ''Admin User'', role = ''admin''\<rparr>"
  have fit: "primitives_fit tv_primitives (jwt_secret None) (issued_claims ?I 1700000000000)"
    by (simp add: tv_issued tv_fit jwt_secret_def)
  have t: "(1700000001000 :: nat) div 1000 < 1700000000000 div 1000 + 86400"
    by simp
  from me_GET_returns_full_payload[OF fit t, of "\<lparr>json_body = None, cookies = Map.empty\<rparr>"]
  show ?thesis
    using fit t by (simp add: tv_sign jwt_secret_def)
qed

end
